theory Spec2Isabelle
  imports Main "HOL-Library.Word"
begin

section \<open>Memory and allocation helpers (main.c)\<close>

text \<open>
  A \<^verbatim>\<open>uint8_t *\<close> is modelled by what it points to: \<open>None\<close> is the null pointer,
  \<open>Some bs\<close> a pointer to a block whose contents are the bytes \<open>bs\<close>. A \<^verbatim>\<open>size_t\<close>
  is a natural number below \<open>2 ^ 64\<close>; an \<^verbatim>\<open>int\<close> length is an \<open>int\<close>.

  Two ways in which a C call does not return a value are kept as values of \<open>fault\<close>:
  \<open>Aborted\<close> is the \<^verbatim>\<open>abort()\<close> of \<^verbatim>\<open>util_malloc\<close>, \<open>Undefined\<close> is behaviour
  the C standard or the library contract leaves undefined (reading past a block,
  printing the null pointer as a string, using an uninitialised local, signed
  overflow).
\<close>

type_synonym byte = "8 word"
type_synonym ptr = "byte list option"

datatype fault = Aborted | Undefined

text \<open>
  What the environment answers during one call: whether \<^verbatim>\<open>malloc\<close> finds memory,
  whether \<^verbatim>\<open>dbus_message_new_method_return\<close> can build a reply, and whether the bus
  accepts an interface at a path.
\<close>

record environment =
  malloc_ok :: bool
  new_reply_ok :: bool
  register_ok :: "string \<Rightarrow> string \<Rightarrow> bool"

definition size_t_of_int :: "int \<Rightarrow> nat" where
  "size_t_of_int i = nat (i mod 2 ^ 64)"

text \<open>\<^verbatim>\<open>util_malloc\<close>: the result \<open>Some n\<close> is a pointer to a fresh block of \<open>n\<close> bytes.\<close>

definition util_malloc :: "environment \<Rightarrow> nat \<Rightarrow> fault + nat option" where
  "util_malloc e sz =
     (if sz \<noteq> 0 then
        (if malloc_ok e then Inr (Some sz) else Inl Aborted)
      else Inr None)"

text \<open>\<^verbatim>\<open>memcpy(cpy, src, size)\<close> into a fresh block of \<open>size\<close> bytes.\<close>

definition memcpy :: "byte list \<Rightarrow> nat \<Rightarrow> fault + ptr" where
  "memcpy src sz =
     (if sz \<le> length src then Inr (Some (take sz src)) else Inl Undefined)"

definition util_memdup :: "environment \<Rightarrow> ptr \<Rightarrow> nat \<Rightarrow> fault + ptr" where
  "util_memdup e src sz =
     (case src of
        None \<Rightarrow> Inr None
      | Some bs \<Rightarrow>
          if sz = 0 then Inr None
          else (case util_malloc e sz of
                  Inl f \<Rightarrow> Inl f
                | Inr None \<Rightarrow> Inr None
                | Inr (Some cpy) \<Rightarrow> memcpy bs sz))"

section \<open>Attributes (hrp.h)\<close>

record characteristic =
  chr_service :: string
  chr_uuid :: string
  chr_path :: string
  chr_value :: ptr
  chr_vlen :: int
  chr_props :: "string list"

text \<open>
  The descriptor's pointer to its characteristic is kept as that characteristic's
  object path, the key under which the structure is registered.
\<close>

record descriptor =
  desc_chr :: string
  desc_uuid :: string
  desc_path :: string
  desc_value :: ptr
  desc_vlen :: int
  desc_props :: "string list"

definition GATT_MGR_IFACE :: string where
  "GATT_MGR_IFACE = ''org.bluez.GattManager1''"

definition GATT_SERVICE_IFACE :: string where
  "GATT_SERVICE_IFACE = ''org.bluez.GattService1''"

definition GATT_CHR_IFACE :: string where
  "GATT_CHR_IFACE = ''org.bluez.GattCharacteristic1''"

definition GATT_DESCRIPTOR_IFACE :: string where
  "GATT_DESCRIPTOR_IFACE = ''org.bluez.GattDescriptor1''"

text \<open>
  A \<^verbatim>\<open>DBusConnection *\<close>: \<open>None\<close> is the null pointer, \<open>Some c\<close> the connection
  \<open>c\<close>. What leaves the process is recorded as a list of events, in order: a completed
  call of the sink \<^verbatim>\<open>callback(data, size)\<close>, and a property-changed signal published on
  a connection for a path, an interface and a property name.
\<close>

type_synonym DBusConnection = "nat option"

datatype event =
  Callback ptr int
| PropertyChanged nat string string string

text \<open>
  The sink \<^verbatim>\<open>callback\<close> of main.c prints \<^verbatim>\<open>data\<close> as a string, with the conversion
  \<^verbatim>\<open>%s\<close> of \<^verbatim>\<open>printf\<close>, and then the size. Printing a string reads the block up to
  its first zero byte: with the null pointer, and with a block that holds no zero byte
  (the read runs past its end), the call has no defined result.
\<close>

definition callback :: "ptr \<Rightarrow> int \<Rightarrow> fault + event list" where
  "callback data sz =
     (case data of
        None \<Rightarrow> Inl Undefined
      | Some bs \<Rightarrow> if 0 \<in> set bs then Inr [Callback data sz] else Inl Undefined)"

text \<open>
  Modelled from the spec: \<^verbatim>\<open>g_dbus_emit_property_changed\<close> belongs to the gdbus
  directory, of which only the header is included. It is the hook that publishes the
  change of a property of the object at a path on the connection it is given; with the
  null pointer for a connection there is no bus to publish on, and no signal goes out.
\<close>

definition g_dbus_emit_property_changed ::
  "DBusConnection \<Rightarrow> string \<Rightarrow> string \<Rightarrow> string \<Rightarrow> event list" where
  "g_dbus_emit_property_changed connection path interface name =
     (case connection of
        None \<Rightarrow> []
      | Some c \<Rightarrow> [PropertyChanged c path interface name])"

section \<open>Value access (hrp.c)\<close>

text \<open>
  \<^verbatim>\<open>dbus_message_iter_append_fixed_array\<close> copies \<open>n\<close> bytes out of the block; the
  result is the byte array that ends up in the reply.
\<close>

definition append_fixed_array :: "ptr \<Rightarrow> int \<Rightarrow> fault + byte list" where
  "append_fixed_array p n =
     (if n = 0 then Inr []
      else (case p of
              None \<Rightarrow> Inl Undefined
            | Some bs \<Rightarrow>
                if 0 < n \<and> nat n \<le> length bs then Inr (take (nat n) bs)
                else Inl Undefined))"

definition chr_read :: "characteristic \<Rightarrow> fault + byte list" where
  "chr_read chr = append_fixed_array (chr_value chr) (chr_vlen chr)"

definition desc_read :: "descriptor \<Rightarrow> fault + byte list" where
  "desc_read desc =
     (if desc_vlen desc \<noteq> 0 \<and> desc_value desc \<noteq> None
      then append_fixed_array (desc_value desc) (desc_vlen desc)
      else Inr [])"

text \<open>
  \<^verbatim>\<open>chr_write\<close> in two parts. The first is its three opening statements: the old
  block is freed, and the copy of the new bytes and the new length are assigned to the
  structure. The second hands the stored pointer and length to the sink and then asks
  for the property-changed signal; a fault in the sink ends the call there.
\<close>

definition chr_write_assign ::
  "environment \<Rightarrow> characteristic \<Rightarrow> ptr \<Rightarrow> int \<Rightarrow> fault + characteristic" where
  "chr_write_assign e chr val len =
     (case util_memdup e val (size_t_of_int len) of
        Inl f \<Rightarrow> Inl f
      | Inr p \<Rightarrow> Inr (chr\<lparr>chr_value := p, chr_vlen := len\<rparr>))"

definition chr_write ::
  "environment \<Rightarrow> DBusConnection \<Rightarrow> characteristic \<Rightarrow> ptr \<Rightarrow> int
     \<Rightarrow> fault + (characteristic \<times> event list)" where
  "chr_write e connection chr val len =
     (case chr_write_assign e chr val len of
        Inl f \<Rightarrow> Inl f
      | Inr chr' \<Rightarrow>
          (case callback (chr_value chr') (chr_vlen chr') of
             Inl f \<Rightarrow> Inl f
           | Inr printed \<Rightarrow>
               Inr (chr',
                    printed @ g_dbus_emit_property_changed connection (chr_path chr')
                                GATT_CHR_IFACE ''Value'')))"

text \<open>\<^verbatim>\<open>desc_write\<close>, in the same two parts.\<close>

definition desc_write_assign ::
  "environment \<Rightarrow> descriptor \<Rightarrow> ptr \<Rightarrow> int \<Rightarrow> fault + descriptor" where
  "desc_write_assign e desc val len =
     (case util_memdup e val (size_t_of_int len) of
        Inl f \<Rightarrow> Inl f
      | Inr p \<Rightarrow> Inr (desc\<lparr>desc_value := p, desc_vlen := len\<rparr>))"

definition desc_write ::
  "environment \<Rightarrow> DBusConnection \<Rightarrow> descriptor \<Rightarrow> ptr \<Rightarrow> int
     \<Rightarrow> fault + (descriptor \<times> event list)" where
  "desc_write e connection desc val len =
     (case desc_write_assign e desc val len of
        Inl f \<Rightarrow> Inl f
      | Inr desc' \<Rightarrow>
          (case callback (desc_value desc') (desc_vlen desc') of
             Inl f \<Rightarrow> Inl f
           | Inr printed \<Rightarrow>
               Inr (desc',
                    printed @ g_dbus_emit_property_changed connection (desc_path desc')
                                GATT_DESCRIPTOR_IFACE ''Value'')))"

section \<open>D-Bus messages\<close>

text \<open>
  The part of the D-Bus type system that the handlers look at. A message is the list of
  its arguments, and a message iterator is the list of the elements that remain at its
  level: the current element is the head. An array carries its element type, so that an
  empty array of bytes differs from an empty array of strings.
\<close>

datatype dbus_type =
  DBUS_TYPE_INVALID
| DBUS_TYPE_BYTE
| DBUS_TYPE_STRING
| DBUS_TYPE_OBJECT_PATH
| DBUS_TYPE_ARRAY
| DBUS_TYPE_VARIANT
| DBUS_TYPE_DICT_ENTRY

datatype dbus_arg =
  DByte byte
| DString string
| DObjectPath string
| DArray dbus_type "dbus_arg list"
| DVariant dbus_arg
| DDictEntry dbus_arg dbus_arg

type_synonym DBusMessageIter = "dbus_arg list"

fun type_of_arg :: "dbus_arg \<Rightarrow> dbus_type" where
  "type_of_arg (DByte b) = DBUS_TYPE_BYTE"
| "type_of_arg (DString s) = DBUS_TYPE_STRING"
| "type_of_arg (DObjectPath s) = DBUS_TYPE_OBJECT_PATH"
| "type_of_arg (DArray t xs) = DBUS_TYPE_ARRAY"
| "type_of_arg (DVariant x) = DBUS_TYPE_VARIANT"
| "type_of_arg (DDictEntry k v) = DBUS_TYPE_DICT_ENTRY"

fun dbus_message_iter_get_arg_type :: "DBusMessageIter \<Rightarrow> dbus_type" where
  "dbus_message_iter_get_arg_type [] = DBUS_TYPE_INVALID"
| "dbus_message_iter_get_arg_type (a # rest) = type_of_arg a"

text \<open>Recursing into the current element; \<open>None\<close> when it is not a container.\<close>

fun dbus_message_iter_recurse :: "DBusMessageIter \<Rightarrow> DBusMessageIter option" where
  "dbus_message_iter_recurse (DArray t xs # rest) = Some xs"
| "dbus_message_iter_recurse (DVariant x # rest) = Some [x]"
| "dbus_message_iter_recurse (DDictEntry k v # rest) = Some [k, v]"
| "dbus_message_iter_recurse iter = None"

text \<open>
  \<^verbatim>\<open>dbus_message_iter_get_basic\<close> into a \<^verbatim>\<open>const char *\<close>: defined for the string-like
  elements only.
\<close>

fun get_basic_string :: "DBusMessageIter \<Rightarrow> string option" where
  "get_basic_string (DString s # rest) = Some s"
| "get_basic_string (DObjectPath s # rest) = Some s"
| "get_basic_string iter = None"

fun fixed_block :: "dbus_arg list \<Rightarrow> byte list" where
  "fixed_block [] = []"
| "fixed_block (DByte b # xs) = b # fixed_block xs"
| "fixed_block (x # xs) = fixed_block xs"

text \<open>
  \<^verbatim>\<open>dbus_message_iter_get_fixed_array\<close> on the iterator inside an array: an empty array
  gives the null pointer and zero elements, an array of bytes gives the block and its
  number of elements, and for elements that are not of a fixed-size type the library
  refuses and leaves both out-parameters as they were (\<open>None\<close>).
\<close>

fun dbus_message_iter_get_fixed_array :: "DBusMessageIter \<Rightarrow> (ptr \<times> int) option" where
  "dbus_message_iter_get_fixed_array [] = Some (None, 0)"
| "dbus_message_iter_get_fixed_array (DByte b # xs) =
     Some (Some (fixed_block (DByte b # xs)), int (length (fixed_block (DByte b # xs))))"
| "dbus_message_iter_get_fixed_array (x # xs) = None"

definition EINVAL :: int where
  "EINVAL = 22"

definition DBUS_MAXIMUM_ARRAY_LENGTH :: nat where
  "DBUS_MAXIMUM_ARRAY_LENGTH = 67108864"

text \<open>
  \<^verbatim>\<open>parse_value\<close>: the return code, and what the two out-parameters hold afterwards
  (\<open>None\<close> when they were not written).
\<close>

definition parse_value :: "DBusMessageIter \<Rightarrow> int \<times> (ptr \<times> int) option" where
  "parse_value iter =
     (if dbus_message_iter_get_arg_type iter \<noteq> DBUS_TYPE_ARRAY then (- EINVAL, None)
      else (case dbus_message_iter_recurse iter of
              None \<Rightarrow> (0, None)
            | Some array \<Rightarrow> (0, dbus_message_iter_get_fixed_array array)))"

definition tolower :: "char \<Rightarrow> char" where
  "tolower c =
     (let n = (of_char c :: nat)
      in if 65 \<le> n \<and> n \<le> 90 then char_of (n + 32) else c)"

definition strcasecmp_equal :: "string \<Rightarrow> string \<Rightarrow> bool" where
  "strcasecmp_equal a b \<longleftrightarrow> map tolower a = map tolower b"

text \<open>
  The \<^verbatim>\<open>while\<close> loop of \<^verbatim>\<open>parse_options\<close> over the entries of the dictionary; the
  second argument is what \<^verbatim>\<open>*device\<close> holds so far.
\<close>

fun parse_options_loop ::
  "DBusMessageIter \<Rightarrow> string option \<Rightarrow> fault + (int \<times> string option)" where
  "parse_options_loop [] device = Inr (0, device)"
| "parse_options_loop (DDictEntry k v # dict) device =
     (case get_basic_string [k] of
        None \<Rightarrow> Inl Undefined
      | Some key \<Rightarrow>
          (case dbus_message_iter_recurse [v] of
             None \<Rightarrow> Inl Undefined
           | Some val \<Rightarrow>
               if strcasecmp_equal key ''device'' then
                 (if dbus_message_iter_get_arg_type val \<noteq> DBUS_TYPE_OBJECT_PATH
                  then Inr (- EINVAL, device)
                  else parse_options_loop dict (get_basic_string val))
               else parse_options_loop dict device))"
| "parse_options_loop (x # dict) device = Inr (0, device)"

definition parse_options :: "DBusMessageIter \<Rightarrow> fault + (int \<times> string option)" where
  "parse_options iter =
     (if dbus_message_iter_get_arg_type iter \<noteq> DBUS_TYPE_ARRAY then Inr (- EINVAL, None)
      else (case dbus_message_iter_recurse iter of
              None \<Rightarrow> Inl Undefined
            | Some dict \<Rightarrow> parse_options_loop dict None))"

datatype DBusMessage =
  MethodReturn "dbus_arg list"
| ErrorMessage string string

definition DBUS_ERROR_INVALID_ARGS :: string where
  "DBUS_ERROR_INVALID_ARGS = ''org.freedesktop.DBus.Error.InvalidArgs''"

definition DBUS_ERROR_NO_MEMORY :: string where
  "DBUS_ERROR_NO_MEMORY = ''org.freedesktop.DBus.Error.NoMemory''"

definition DBUS_ERROR_NOT_SUPPORTED :: string where
  "DBUS_ERROR_NOT_SUPPORTED = ''org.freedesktop.DBus.Error.NotSupported''"

definition g_dbus_create_error :: "string \<Rightarrow> string \<Rightarrow> DBusMessage option" where
  "g_dbus_create_error name text = Some (ErrorMessage name text)"

definition dbus_message_new_method_return :: "environment \<Rightarrow> DBusMessage option" where
  "dbus_message_new_method_return e =
     (if new_reply_ok e then Some (MethodReturn []) else None)"

text \<open>The outcome reported for a pending property \<^verbatim>\<open>Set\<close>.\<close>

datatype pending_result =
  PendingSuccess
| PendingError string string

section \<open>Property setters and method handlers (hrp.c)\<close>

definition desc_get_value :: "descriptor \<Rightarrow> fault + byte list" where
  "desc_get_value desc = desc_read desc"

definition chr_get_value :: "characteristic \<Rightarrow> fault + byte list" where
  "chr_get_value chr = chr_read chr"

definition desc_set_value ::
  "environment \<Rightarrow> descriptor \<Rightarrow> DBusMessageIter
     \<Rightarrow> fault + (pending_result \<times> descriptor \<times> event list)" where
  "desc_set_value e desc iter =
     (case parse_value iter of
        (rc, out) \<Rightarrow>
          if rc \<noteq> 0 then
            Inr (PendingError ''error.InvalidArguments''
                   ''Invalid arguments in method call'', desc, [])
          else (case out of
                  None \<Rightarrow> Inl Undefined
                | Some (val, len) \<Rightarrow>
                    (case desc_write e None desc val len of
                       Inl f \<Rightarrow> Inl f
                     | Inr (desc', evs) \<Rightarrow> Inr (PendingSuccess, desc', evs))))"

definition chr_set_value ::
  "environment \<Rightarrow> characteristic \<Rightarrow> DBusMessageIter
     \<Rightarrow> fault + (pending_result \<times> characteristic \<times> event list)" where
  "chr_set_value e chr iter =
     (case parse_value iter of
        (rc, out) \<Rightarrow>
          if rc = 0 then
            Inr (PendingError ''ERROR_INTERFACE.InvalidArguments''
                   ''Invalid arguments in method call'', chr, [])
          else (case out of
                  None \<Rightarrow> Inl Undefined
                | Some (val, len) \<Rightarrow>
                    (case chr_write e None chr val len of
                       Inl f \<Rightarrow> Inl f
                     | Inr (chr', evs) \<Rightarrow> Inr (PendingSuccess, chr', evs))))"

definition chr_read_value ::
  "environment \<Rightarrow> characteristic \<Rightarrow> dbus_arg list \<Rightarrow> fault + DBusMessage option" where
  "chr_read_value e chr msg =
     (if msg = [] then
        Inr (g_dbus_create_error DBUS_ERROR_INVALID_ARGS ''Invalid arguments'')
      else (case parse_options msg of
              Inl f \<Rightarrow> Inl f
            | Inr (rc, device) \<Rightarrow>
                if rc \<noteq> 0 then
                  Inr (g_dbus_create_error DBUS_ERROR_INVALID_ARGS ''Invalid arguments'')
                else (case dbus_message_new_method_return e of
                        None \<Rightarrow> Inr (g_dbus_create_error DBUS_ERROR_NO_MEMORY ''No Memory'')
                      | Some reply \<Rightarrow>
                          (case chr_read chr of
                             Inl f \<Rightarrow> Inl f
                           | Inr bs \<Rightarrow>
                               Inr (Some (MethodReturn
                                            [DArray DBUS_TYPE_BYTE (map DByte bs)]))))))"

text \<open>
  \<^verbatim>\<open>chr_write_value\<close> ignores the result of \<^verbatim>\<open>dbus_message_iter_init\<close> and hands the
  same iterator, still on the first argument, to both parsers.
\<close>

definition chr_write_value ::
  "environment \<Rightarrow> DBusConnection \<Rightarrow> characteristic \<Rightarrow> dbus_arg list
     \<Rightarrow> fault + (DBusMessage option \<times> characteristic \<times> event list)" where
  "chr_write_value e conn chr msg =
     (case parse_value msg of
        (rc, out) \<Rightarrow>
          if rc \<noteq> 0 then
            Inr (g_dbus_create_error DBUS_ERROR_INVALID_ARGS ''Invalid arguments'', chr, [])
          else (case parse_options msg of
                  Inl f \<Rightarrow> Inl f
                | Inr (rc', device) \<Rightarrow>
                    if rc' \<noteq> 0 then
                      Inr (g_dbus_create_error DBUS_ERROR_INVALID_ARGS ''Invalid arguments'',
                           chr, [])
                    else (case out of
                            None \<Rightarrow> Inl Undefined
                          | Some (val, len) \<Rightarrow>
                              (case chr_write e conn chr val len of
                                 Inl f \<Rightarrow> Inl f
                               | Inr (chr', evs) \<Rightarrow>
                                   Inr (dbus_message_new_method_return e, chr', evs)))))"



definition chr_stop_notify ::
  "DBusConnection \<Rightarrow> characteristic
     \<Rightarrow> DBusMessage option \<times> characteristic \<times> event list" where
  "chr_stop_notify conn chr =
     (g_dbus_create_error DBUS_ERROR_NOT_SUPPORTED ''Not Supported'', chr, [])"

definition desc_read_value ::
  "environment \<Rightarrow> descriptor \<Rightarrow> dbus_arg list \<Rightarrow> fault + DBusMessage option" where
  "desc_read_value e desc msg =
     (if msg = [] then
        Inr (g_dbus_create_error DBUS_ERROR_INVALID_ARGS ''Invalid arguments'')
      else (case parse_options msg of
              Inl f \<Rightarrow> Inl f
            | Inr (rc, device) \<Rightarrow>
                if rc \<noteq> 0 then
                  Inr (g_dbus_create_error DBUS_ERROR_INVALID_ARGS ''Invalid arguments'')
                else (case dbus_message_new_method_return e of
                        None \<Rightarrow> Inr (g_dbus_create_error DBUS_ERROR_NO_MEMORY ''No Memory'')
                      | Some reply \<Rightarrow>
                          (case desc_read desc of
                             Inl f \<Rightarrow> Inl f
                           | Inr bs \<Rightarrow>
                               Inr (Some (MethodReturn
                                            [DArray DBUS_TYPE_BYTE (map DByte bs)]))))))"

definition desc_write_value ::
  "environment \<Rightarrow> DBusConnection \<Rightarrow> descriptor \<Rightarrow> dbus_arg list
     \<Rightarrow> fault + (DBusMessage option \<times> descriptor \<times> event list)" where
  "desc_write_value e conn desc msg =
     (if msg = [] then
        Inr (g_dbus_create_error DBUS_ERROR_INVALID_ARGS ''Invalid arguments'', desc, [])
      else (case parse_value msg of
        (rc, out) \<Rightarrow>
          if rc \<noteq> 0 then
            Inr (g_dbus_create_error DBUS_ERROR_INVALID_ARGS ''Invalid arguments'', desc, [])
          else (case parse_options msg of
                  Inl f \<Rightarrow> Inl f
                | Inr (rc', device) \<Rightarrow>
                    if rc' \<noteq> 0 then
                      Inr (g_dbus_create_error DBUS_ERROR_INVALID_ARGS ''Invalid arguments'',
                           desc, [])
                    else (case out of
                            None \<Rightarrow> Inl Undefined
                          | Some (val, len) \<Rightarrow>
                              (case desc_write e conn desc val len of
                                 Inl f \<Rightarrow> Inl f
                               | Inr (desc', evs) \<Rightarrow>
                                   Inr (dbus_message_new_method_return e, desc', evs))))))"

section \<open>Registration (hrp.c)\<close>

definition HRP_UUID :: string where
  "HRP_UUID = ''0000180d-0000-1000-8000-00805f9b34fb''"

definition HR_MSRMT_CHR_UUID :: string where
  "HR_MSRMT_CHR_UUID = ''00002a37-0000-1000-8000-00805f9b34fb''"

definition BODY_SENSOR_LOC_CHR_UUID :: string where
  "BODY_SENSOR_LOC_CHR_UUID = ''00002a38-0000-1000-8000-00805f9b34fb''"

definition HR_CTRL_PT_CHR_UUID :: string where
  "HR_CTRL_PT_CHR_UUID = ''00002a39-0000-1000-8000-00805f9b34fb''"

definition CLIENT_CHR_CONFIG_DESCRIPTOR_UUID :: string where
  "CLIENT_CHR_CONFIG_DESCRIPTOR_UUID = ''82602902-1a54-426b-9e36-e84c238bc669''"

definition hrs_hr_msrmt_props :: "string list" where
  "hrs_hr_msrmt_props = [''notify'']"

definition hrs_body_sensor_loc_props :: "string list" where
  "hrs_body_sensor_loc_props = [''read'']"

definition hrs_hr_ctrl_pt_props :: "string list" where
  "hrs_hr_ctrl_pt_props = [''write'']"

definition ccc_desc_props :: "string list" where
  "ccc_desc_props = [''read'', ''write'']"

text \<open>The \<^verbatim>\<open>user_data\<close> pointer registered with an interface.\<close>

datatype user_data =
  ServiceData string
| CharacteristicData characteristic
| DescriptorData descriptor

text \<open>
  The state that registration works on: the two function-local \<^verbatim>\<open>static int id\<close>
  counters, the interfaces exposed on the connection as (path, interface, user data)
  in the order of their registration, and the global list \<^verbatim>\<open>services\<close>.
\<close>

record gatt_state =
  register_service_id :: int
  register_characteristic_id :: int
  interfaces :: "(string \<times> string \<times> user_data) list"
  services :: "string list"

definition INT_MAX :: int where
  "INT_MAX = 2147483647"

text \<open>Decimal digits, as \<^verbatim>\<open>%d\<close> prints an \<^verbatim>\<open>int\<close>.\<close>

fun decimal :: "nat \<Rightarrow> string" where
  "decimal n =
     (if n < 10 then [char_of (48 + n)]
      else decimal (n div 10) @ [char_of (48 + n mod 10)])"

definition printf_d :: "int \<Rightarrow> string" where
  "printf_d i = (if i < 0 then ''-'' @ decimal (nat (- i)) else decimal (nat i))"

text \<open>
  The three \<^verbatim>\<open>g_strdup_printf\<close> calls: \<^verbatim>\<open>"/service%d"\<close>, \<^verbatim>\<open>"%s/characteristic%d"\<close>
  and \<^verbatim>\<open>"%s/descriptor%d"\<close>.
\<close>

definition service_path_fmt :: "int \<Rightarrow> string" where
  "service_path_fmt i = ''/service'' @ printf_d i"

definition characteristic_path_fmt :: "string \<Rightarrow> int \<Rightarrow> string" where
  "characteristic_path_fmt service_path i = service_path @ ''/characteristic'' @ printf_d i"

definition descriptor_path_fmt :: "string \<Rightarrow> int \<Rightarrow> string" where
  "descriptor_path_fmt chr_path' i = chr_path' @ ''/descriptor'' @ printf_d i"

definition is_registered :: "gatt_state \<Rightarrow> string \<Rightarrow> string \<Rightarrow> bool" where
  "is_registered st path name \<longleftrightarrow> (path, name) \<in> set (map (\<lambda>(p, n, d). (p, n)) (interfaces st))"

text \<open>
  Modelled from the spec: \<^verbatim>\<open>g_dbus_register_interface\<close> belongs to the gdbus directory,
  of which only the header is included. Exposing an interface fails when the path
  already exposes it, and it can fail independently, as the environment decides;
  otherwise the interface is exposed with its user data.
\<close>

definition g_dbus_register_interface ::
  "environment \<Rightarrow> gatt_state \<Rightarrow> string \<Rightarrow> string \<Rightarrow> user_data \<Rightarrow> bool \<times> gatt_state" where
  "g_dbus_register_interface e st path name data =
     (if register_ok e path name \<and> \<not> is_registered st path name
      then (True, st\<lparr>interfaces := interfaces st @ [(path, name, data)]\<rparr>)
      else (False, st))"

text \<open>
  Modelled from the spec: \<^verbatim>\<open>g_dbus_unregister_interface\<close>, from the same directory,
  removes the interface from the path (and destroys its user data); on a path that
  does not expose it nothing changes.
\<close>

definition g_dbus_unregister_interface :: "gatt_state \<Rightarrow> string \<Rightarrow> string \<Rightarrow> gatt_state" where
  "g_dbus_unregister_interface st path name =
     st\<lparr>interfaces := filter (\<lambda>(p, n, d). \<not> (p = path \<and> n = name)) (interfaces st)\<rparr>"

text \<open>
  \<^verbatim>\<open>register_characteristic\<close>. Both paths take their number from the one static
  \<^verbatim>\<open>id\<close> of the function, each with \<^verbatim>\<open>id++\<close>; incrementing \<^verbatim>\<open>INT_MAX\<close> is undefined.
  The descriptor comes from \<^verbatim>\<open>g_new0\<close>: null value, length zero.
\<close>

definition register_characteristic ::
  "environment \<Rightarrow> gatt_state \<Rightarrow> string \<Rightarrow> ptr \<Rightarrow> int \<Rightarrow> string list
     \<Rightarrow> string option \<Rightarrow> string list \<Rightarrow> string \<Rightarrow> fault + (bool \<times> gatt_state)" where
  "register_characteristic e st uuid val vlen props desc_uuid' desc_props' service_path =
     (case util_memdup e val (size_t_of_int vlen) of
        Inl f \<Rightarrow> Inl f
      | Inr p \<Rightarrow>
          if register_characteristic_id st = INT_MAX then Inl Undefined
          else
            (let chr = \<lparr>chr_service = service_path, chr_uuid = uuid,
                        chr_path = characteristic_path_fmt service_path
                                     (register_characteristic_id st),
                        chr_value = p, chr_vlen = vlen, chr_props = props\<rparr>;
                 st1 = st\<lparr>register_characteristic_id := register_characteristic_id st + 1\<rparr>
             in (case g_dbus_register_interface e st1 (chr_path chr) GATT_CHR_IFACE
                        (CharacteristicData chr) of
                   (False, st2) \<Rightarrow> Inr (False, st2)
                 | (True, st2) \<Rightarrow>
                     (case desc_uuid' of
                        None \<Rightarrow> Inr (True, st2)
                      | Some du \<Rightarrow>
                          if register_characteristic_id st2 = INT_MAX then Inl Undefined
                          else
                            (let desc = \<lparr>desc_chr = chr_path chr, desc_uuid = du,
                                         desc_path = descriptor_path_fmt (chr_path chr)
                                           (register_characteristic_id st2),
                                         desc_value = None, desc_vlen = 0,
                                         desc_props = desc_props'\<rparr>;
                                 st3 = st2\<lparr>register_characteristic_id :=
                                              register_characteristic_id st2 + 1\<rparr>
                             in (case g_dbus_register_interface e st3 (desc_path desc)
                                        GATT_DESCRIPTOR_IFACE (DescriptorData desc) of
                                   (False, st4) \<Rightarrow>
                                     Inr (False,
                                          g_dbus_unregister_interface st4 (chr_path chr)
                                            GATT_CHR_IFACE)
                                 | (True, st4) \<Rightarrow> Inr (True, st4)))))))"

definition register_service ::
  "environment \<Rightarrow> gatt_state \<Rightarrow> string \<Rightarrow> fault + (string option \<times> gatt_state)" where
  "register_service e st uuid =
     (if register_service_id st = INT_MAX then Inl Undefined
      else
        (let path = service_path_fmt (register_service_id st);
             st1 = st\<lparr>register_service_id := register_service_id st + 1\<rparr>
         in (case g_dbus_register_interface e st1 path GATT_SERVICE_IFACE (ServiceData uuid) of
               (False, st2) \<Rightarrow> Inr (None, st2)
             | (True, st2) \<Rightarrow> Inr (Some path, st2))))"

text \<open>\<^verbatim>\<open>create_services_one\<close>; \<^verbatim>\<open>level\<close> is one byte holding 0.\<close>

definition create_services_one :: "environment \<Rightarrow> gatt_state \<Rightarrow> fault + gatt_state" where
  "create_services_one e st =
     (case register_service e st HRP_UUID of
        Inl f \<Rightarrow> Inl f
      | Inr (None, st1) \<Rightarrow> Inr st1
      | Inr (Some service_path, st1) \<Rightarrow>
          (case register_characteristic e st1 HR_MSRMT_CHR_UUID (Some [0]) 1
                  hrs_hr_msrmt_props (Some CLIENT_CHR_CONFIG_DESCRIPTOR_UUID)
                  ccc_desc_props service_path of
             Inl f \<Rightarrow> Inl f
           | Inr (False, st2) \<Rightarrow>
               Inr (g_dbus_unregister_interface st2 service_path GATT_SERVICE_IFACE)
           | Inr (True, st2) \<Rightarrow>
               (case register_characteristic e st2 BODY_SENSOR_LOC_CHR_UUID (Some [0]) 1
                       hrs_body_sensor_loc_props None [] service_path of
                  Inl f \<Rightarrow> Inl f
                | Inr (False, st3) \<Rightarrow>
                    Inr (g_dbus_unregister_interface st3 service_path GATT_SERVICE_IFACE)
                | Inr (True, st3) \<Rightarrow>
                    (case register_characteristic e st3 HR_CTRL_PT_CHR_UUID (Some [0]) 1
                            hrs_hr_ctrl_pt_props None [] service_path of
                       Inl f \<Rightarrow> Inl f
                     | Inr (False, st4) \<Rightarrow>
                         Inr (g_dbus_unregister_interface st4 service_path
                                GATT_SERVICE_IFACE)
                     | Inr (True, st4) \<Rightarrow>
                         Inr (st4\<lparr>services := service_path # services st4\<rparr>)))))"

text \<open>The state of a process that has registered nothing yet.\<close>

definition initial_state :: gatt_state where
  "initial_state =
     \<lparr>register_service_id = 1, register_characteristic_id = 1,
      interfaces = [], services = []\<rparr>"

definition all_ok :: environment where
  "all_ok = \<lparr>malloc_ok = True, new_reply_ok = True, register_ok = (\<lambda>path name. True)\<rparr>"

text \<open>
  The attributes that \<^verbatim>\<open>create_services_one\<close> registers in a fresh process: the heart
  rate measurement characteristic with its client configuration descriptor, and the body
  sensor location characteristic.
\<close>

definition heart_rate_measurement :: characteristic where
  "heart_rate_measurement =
     \<lparr>chr_service = ''/service1'', chr_uuid = HR_MSRMT_CHR_UUID,
      chr_path = ''/service1/characteristic1'', chr_value = Some [0], chr_vlen = 1,
      chr_props = hrs_hr_msrmt_props\<rparr>"

definition body_sensor_location :: characteristic where
  "body_sensor_location =
     \<lparr>chr_service = ''/service1'', chr_uuid = BODY_SENSOR_LOC_CHR_UUID,
      chr_path = ''/service1/characteristic3'', chr_value = Some [0], chr_vlen = 1,
      chr_props = hrs_body_sensor_loc_props\<rparr>"

definition client_chr_config :: descriptor where
  "client_chr_config =
     \<lparr>desc_chr = ''/service1/characteristic1'', desc_uuid = CLIENT_CHR_CONFIG_DESCRIPTOR_UUID,
      desc_path = ''/service1/characteristic1/descriptor2'', desc_value = None, desc_vlen = 0,
      desc_props = ccc_desc_props\<rparr>"

text \<open>
  Two further situations: a bus that refuses every descriptor interface, and the state
  right after \<^verbatim>\<open>register_service\<close> has registered the first service.
\<close>

definition refuses_descriptors :: environment where
  "refuses_descriptors =
     \<lparr>malloc_ok = True, new_reply_ok = True,
      register_ok = (\<lambda>path name. name \<noteq> GATT_DESCRIPTOR_IFACE)\<rparr>"

definition service_registered :: gatt_state where
  "service_registered =
     \<lparr>register_service_id = 2, register_characteristic_id = 1,
      interfaces = [(''/service1'', GATT_SERVICE_IFACE, ServiceData HRP_UUID)],
      services = []\<rparr>"

section \<open>Helper facts\<close>

declare decimal.simps [simp del]

lemma size_t_of_int_length:
  "n \<le> DBUS_MAXIMUM_ARRAY_LENGTH \<Longrightarrow> size_t_of_int (int n) = n"
  by (simp add: size_t_of_int_def DBUS_MAXIMUM_ARRAY_LENGTH_def)

lemma size_t_of_int_0: "size_t_of_int 0 = 0"
  by (simp add: size_t_of_int_def)

lemma util_memdup_size_0: "util_memdup e src 0 = Inr None"
  by (simp add: util_memdup_def split: option.splits)




lemma fixed_block_bytes: "fixed_block (map DByte v) = v"
  by (induction v) simp_all

lemma get_fixed_array_bytes:
  "dbus_message_iter_get_fixed_array (map DByte v) = Some (if v = [] then None else Some v, int (length v))"
  by (cases v) (simp_all add: fixed_block_bytes)

lemma parse_value_bytes:
  "parse_value (DArray t (map DByte v) # rest) = (0, Some (if v = [] then None else Some v, int (length v)))"
  by (simp add: parse_value_def get_fixed_array_bytes)

lemma parse_options_loop_bytes: "parse_options_loop (map DByte v) device = Inr (0, device)"
  by (cases v) simp_all

lemma parse_options_bytes: "parse_options (DArray t (map DByte v) # rest) = Inr (0, None)"
  by (simp add: parse_options_def parse_options_loop_bytes)

lemma util_memdup_bytes:
  "length v \<le> DBUS_MAXIMUM_ARRAY_LENGTH \<Longrightarrow> malloc_ok e \<Longrightarrow> v \<noteq> [] \<Longrightarrow>
   util_memdup e (Some v) (size_t_of_int (int (length v))) = Inr (Some v)"
  by (simp add: size_t_of_int_length util_memdup_def util_malloc_def memcpy_def)

lemma callback_null: "callback None n = Inl Undefined"
  by (simp add: callback_def)

lemma callback_terminated: "0 \<in> set v \<Longrightarrow> callback (Some v) n = Inr [Callback (Some v) n]"
  by (simp add: callback_def)

lemma chr_write_assign_0:
  "chr_write_assign e chr val 0 = Inr (chr\<lparr>chr_value := None, chr_vlen := 0\<rparr>)"
  by (simp add: chr_write_assign_def size_t_of_int_0 util_memdup_size_0)

lemma desc_write_assign_0:
  "desc_write_assign e desc val 0 = Inr (desc\<lparr>desc_value := None, desc_vlen := 0\<rparr>)"
  by (simp add: desc_write_assign_def size_t_of_int_0 util_memdup_size_0)

lemma chr_write_0: "chr_write e conn chr val 0 = Inl Undefined"
  by (simp add: chr_write_def chr_write_assign_0 callback_null)

lemma desc_write_0: "desc_write e conn desc val 0 = Inl Undefined"
  by (simp add: desc_write_def desc_write_assign_0 callback_null)

lemma chr_write_bytes:
  "length v \<le> DBUS_MAXIMUM_ARRAY_LENGTH \<Longrightarrow> malloc_ok e \<Longrightarrow> 0 \<in> set v \<Longrightarrow>
   chr_write e conn chr (Some v) (int (length v))
     = Inr (chr\<lparr>chr_value := Some v, chr_vlen := int (length v)\<rparr>,
            Callback (Some v) (int (length v))
              # g_dbus_emit_property_changed conn (chr_path chr) GATT_CHR_IFACE ''Value'')"
proof -
  assume a: "length v \<le> DBUS_MAXIMUM_ARRAY_LENGTH" "malloc_ok e" "0 \<in> set v"
  then have "v \<noteq> []" by auto
  with a show ?thesis
    by (simp add: chr_write_def chr_write_assign_def util_memdup_bytes callback_terminated)
qed

lemma desc_write_bytes:
  "length v \<le> DBUS_MAXIMUM_ARRAY_LENGTH \<Longrightarrow> malloc_ok e \<Longrightarrow> 0 \<in> set v \<Longrightarrow>
   desc_write e conn desc (Some v) (int (length v))
     = Inr (desc\<lparr>desc_value := Some v, desc_vlen := int (length v)\<rparr>,
            Callback (Some v) (int (length v))
              # g_dbus_emit_property_changed conn (desc_path desc) GATT_DESCRIPTOR_IFACE ''Value'')"
proof -
  assume a: "length v \<le> DBUS_MAXIMUM_ARRAY_LENGTH" "malloc_ok e" "0 \<in> set v"
  then have "v \<noteq> []" by auto
  with a show ?thesis
    by (simp add: desc_write_def desc_write_assign_def util_memdup_bytes callback_terminated)
qed

lemma chr_write_value_bytes:
  "length v \<le> DBUS_MAXIMUM_ARRAY_LENGTH \<Longrightarrow> malloc_ok e \<Longrightarrow> 0 \<in> set v \<Longrightarrow>
   chr_write_value e conn chr (DArray DBUS_TYPE_BYTE (map DByte v) # rest)
     = Inr (dbus_message_new_method_return e,
            chr\<lparr>chr_value := Some v, chr_vlen := int (length v)\<rparr>,
            Callback (Some v) (int (length v))
              # g_dbus_emit_property_changed conn (chr_path chr) GATT_CHR_IFACE ''Value'')"
proof -
  assume a: "length v \<le> DBUS_MAXIMUM_ARRAY_LENGTH" "malloc_ok e" "0 \<in> set v"
  then have "v \<noteq> []" by auto
  with a show ?thesis
    by (simp add: chr_write_value_def parse_value_bytes parse_options_bytes chr_write_bytes)
qed

lemma desc_write_value_bytes:
  "length v \<le> DBUS_MAXIMUM_ARRAY_LENGTH \<Longrightarrow> malloc_ok e \<Longrightarrow> 0 \<in> set v \<Longrightarrow>
   desc_write_value e conn desc (DArray DBUS_TYPE_BYTE (map DByte v) # rest)
     = Inr (dbus_message_new_method_return e,
            desc\<lparr>desc_value := Some v, desc_vlen := int (length v)\<rparr>,
            Callback (Some v) (int (length v))
              # g_dbus_emit_property_changed conn (desc_path desc) GATT_DESCRIPTOR_IFACE ''Value'')"
proof -
  assume a: "length v \<le> DBUS_MAXIMUM_ARRAY_LENGTH" "malloc_ok e" "0 \<in> set v"
  then have "v \<noteq> []" by auto
  with a show ?thesis
    by (simp add: desc_write_value_def parse_value_bytes parse_options_bytes desc_write_bytes)
qed

lemma desc_set_value_bytes:
  "length v \<le> DBUS_MAXIMUM_ARRAY_LENGTH \<Longrightarrow> malloc_ok e \<Longrightarrow> 0 \<in> set v \<Longrightarrow>
   desc_set_value e desc (DArray DBUS_TYPE_BYTE (map DByte v) # rest)
     = Inr (PendingSuccess,
            desc\<lparr>desc_value := Some v, desc_vlen := int (length v)\<rparr>,
            [Callback (Some v) (int (length v))])"
proof -
  assume a: "length v \<le> DBUS_MAXIMUM_ARRAY_LENGTH" "malloc_ok e" "0 \<in> set v"
  then have "v \<noteq> []" by auto
  with a show ?thesis
    by (simp add: desc_set_value_def parse_value_bytes desc_write_bytes
          g_dbus_emit_property_changed_def)
qed

lemma chr_read_stored:
  "v \<noteq> [] \<Longrightarrow> chr_read (chr\<lparr>chr_value := Some v, chr_vlen := int (length v)\<rparr>) = Inr v"
  by (simp add: chr_read_def append_fixed_array_def)

lemma chr_write_value_roundtrip_terminated:
  assumes "length v \<le> DBUS_MAXIMUM_ARRAY_LENGTH" and "malloc_ok e" and "0 \<in> set v"
  shows "\<exists>chr' evs.
           chr_write_value e conn chr (DArray DBUS_TYPE_BYTE (map DByte v) # rest)
             = Inr (dbus_message_new_method_return e, chr', evs)
         \<and> chr_vlen chr' = int (length v)
         \<and> chr_read chr' = Inr v"
proof -
  from assms have "v \<noteq> []" by auto
  with assms show ?thesis
    by (simp add: chr_write_value_bytes chr_read_stored)
qed

lemma parse_value_rc:
  "fst (parse_value iter) = (if dbus_message_iter_get_arg_type iter = DBUS_TYPE_ARRAY then 0 else - EINVAL)"
  by (simp add: parse_value_def split: option.splits)

lemma parse_value_not_array:
  "dbus_message_iter_get_arg_type iter \<noteq> DBUS_TYPE_ARRAY \<Longrightarrow> parse_value iter = (- EINVAL, None)"
  by (simp add: parse_value_def)

lemma GATT_ifaces_distinct:
  "GATT_CHR_IFACE \<noteq> GATT_DESCRIPTOR_IFACE" "GATT_DESCRIPTOR_IFACE \<noteq> GATT_CHR_IFACE"
  by (simp_all add: GATT_CHR_IFACE_def GATT_DESCRIPTOR_IFACE_def)

lemma is_registered_counter [simp]:
  "is_registered (st\<lparr>register_characteristic_id := i\<rparr>) path name = is_registered st path name"
  by (simp add: is_registered_def)

lemma is_registered_append:
  "is_registered (st\<lparr>interfaces := interfaces st @ [(p, n, d)]\<rparr>) path name
     \<longleftrightarrow> is_registered st path name \<or> (p = path \<and> n = name)"
  by (auto simp: is_registered_def)

lemma filter_not_registered:
  assumes n: "\<not> is_registered st path name"
  shows "filter (\<lambda>(p, n, d). \<not> (p = path \<and> n = name)) (interfaces st) = interfaces st"
proof -
  have "(\<lambda>(p, n, d). \<not> (p = path \<and> n = name)) x" if "x \<in> set (interfaces st)" for x
  proof (cases x)
    case (fields p n' d)
    have "(p, n') \<in> set (map (\<lambda>(p, n, d). (p, n)) (interfaces st))"
      using that fields by force
    with n have "(p, n') \<noteq> (path, name)"
      unfolding is_registered_def by metis
    with fields show ?thesis by simp
  qed
  then show ?thesis
    by (simp only: filter_id_conv) blast
qed

lemma register_characteristic_no_descriptor:
  assumes "register_characteristic_id st \<noteq> INT_MAX"
    and "util_memdup e val (size_t_of_int vlen) = Inr p"
  shows "register_characteristic e st uuid val vlen props None dprops service_path
     = (if register_ok e (characteristic_path_fmt service_path (register_characteristic_id st))
             GATT_CHR_IFACE
           \<and> \<not> is_registered st
                 (characteristic_path_fmt service_path (register_characteristic_id st))
                 GATT_CHR_IFACE
        then Inr (True,
               st\<lparr>register_characteristic_id := register_characteristic_id st + 1,
                  interfaces := interfaces st @
                    [(characteristic_path_fmt service_path (register_characteristic_id st),
                      GATT_CHR_IFACE,
                      CharacteristicData
                        \<lparr>chr_service = service_path, chr_uuid = uuid,
                         chr_path = characteristic_path_fmt service_path
                                      (register_characteristic_id st),
                         chr_value = p, chr_vlen = vlen, chr_props = props\<rparr>)]\<rparr>)
        else Inr (False,
               st\<lparr>register_characteristic_id := register_characteristic_id st + 1\<rparr>))"
  using assms
  by (simp add: register_characteristic_def g_dbus_register_interface_def Let_def)

lemma register_characteristic_chr_refused:
  assumes "register_characteristic_id st \<noteq> INT_MAX"
    and "util_memdup e val (size_t_of_int vlen) = Inr p"
    and "\<not> (register_ok e (characteristic_path_fmt service_path (register_characteristic_id st))
             GATT_CHR_IFACE
           \<and> \<not> is_registered st
                 (characteristic_path_fmt service_path (register_characteristic_id st))
                 GATT_CHR_IFACE)"
  shows "register_characteristic e st uuid val vlen props du dprops service_path
     = Inr (False, st\<lparr>register_characteristic_id := register_characteristic_id st + 1\<rparr>)"
proof -
  have "g_dbus_register_interface e
          (st\<lparr>register_characteristic_id := register_characteristic_id st + 1\<rparr>)
          (characteristic_path_fmt service_path (register_characteristic_id st))
          GATT_CHR_IFACE d
        = (False, st\<lparr>register_characteristic_id := register_characteristic_id st + 1\<rparr>)"
    for d
    unfolding g_dbus_register_interface_def using assms(3) by auto
  then show ?thesis
    using assms(1,2) by (simp add: register_characteristic_def Let_def)
qed

lemma register_characteristic_with_descriptor:
  fixes service_path :: string and st :: gatt_state
  defines "cpath \<equiv> characteristic_path_fmt service_path (register_characteristic_id st)"
  defines "dpath \<equiv> descriptor_path_fmt cpath (register_characteristic_id st + 1)"
  assumes counter: "register_characteristic_id st < INT_MAX - 1"
    and copy: "util_memdup e val (size_t_of_int vlen) = Inr p"
    and chr_accepted: "register_ok e cpath GATT_CHR_IFACE"
                      "\<not> is_registered st cpath GATT_CHR_IFACE"
    and desc_accepted: "register_ok e dpath GATT_DESCRIPTOR_IFACE"
                       "\<not> is_registered st dpath GATT_DESCRIPTOR_IFACE"
  shows "register_characteristic e st uuid val vlen props (Some du) dprops service_path
           = Inr (True,
               st\<lparr>register_characteristic_id := register_characteristic_id st + 2,
                  interfaces := interfaces st @
                    [(cpath, GATT_CHR_IFACE,
                      CharacteristicData
                        \<lparr>chr_service = service_path, chr_uuid = uuid, chr_path = cpath,
                         chr_value = p, chr_vlen = vlen, chr_props = props\<rparr>),
                     (dpath, GATT_DESCRIPTOR_IFACE,
                      DescriptorData
                        \<lparr>desc_chr = cpath, desc_uuid = du, desc_path = dpath,
                         desc_value = None, desc_vlen = 0, desc_props = dprops\<rparr>)]\<rparr>)"
proof -
  have ne1: "register_characteristic_id st \<noteq> INT_MAX"
    and ne2: "register_characteristic_id st + 1 \<noteq> INT_MAX"
    using counter by simp_all
  show ?thesis
    unfolding register_characteristic_def
    using ne1 ne2 copy chr_accepted desc_accepted GATT_ifaces_distinct
    by (simp add: Let_def g_dbus_register_interface_def is_registered_append
          cpath_def [symmetric] dpath_def [symmetric])
qed

lemma register_characteristic_desc_refused:
  fixes service_path :: string and st :: gatt_state
  defines "cpath \<equiv> characteristic_path_fmt service_path (register_characteristic_id st)"
  defines "dpath \<equiv> descriptor_path_fmt cpath (register_characteristic_id st + 1)"
  assumes counter: "register_characteristic_id st < INT_MAX - 1"
    and copy: "util_memdup e val (size_t_of_int vlen) = Inr p"
    and chr_accepted: "register_ok e cpath GATT_CHR_IFACE"
                      "\<not> is_registered st cpath GATT_CHR_IFACE"
    and desc_refused: "\<not> (register_ok e dpath GATT_DESCRIPTOR_IFACE
                       \<and> \<not> is_registered st dpath GATT_DESCRIPTOR_IFACE)"
  shows "register_characteristic e st uuid val vlen props (Some du) dprops service_path
           = Inr (False, st\<lparr>register_characteristic_id := register_characteristic_id st + 2\<rparr>)"
proof -
  let ?chr = "\<lparr>chr_service = service_path, chr_uuid = uuid, chr_path = cpath,
                chr_value = p, chr_vlen = vlen, chr_props = props\<rparr>"
  let ?st1 = "st\<lparr>register_characteristic_id := register_characteristic_id st + 1\<rparr>"
  let ?st2 = "?st1\<lparr>interfaces := interfaces ?st1 @ [(cpath, GATT_CHR_IFACE, CharacteristicData ?chr)]\<rparr>"
  let ?st3 = "?st2\<lparr>register_characteristic_id := register_characteristic_id ?st2 + 1\<rparr>"
  have ne1: "register_characteristic_id st \<noteq> INT_MAX"
    and ne2: "register_characteristic_id st + 1 \<noteq> INT_MAX"
    using counter by simp_all
  have r1: "g_dbus_register_interface e ?st1 cpath GATT_CHR_IFACE (CharacteristicData ?chr)
              = (True, ?st2)"
    using chr_accepted by (simp add: g_dbus_register_interface_def)
  have "is_registered ?st3 dpath GATT_DESCRIPTOR_IFACE
          \<longleftrightarrow> is_registered st dpath GATT_DESCRIPTOR_IFACE"
    using GATT_ifaces_distinct by (auto simp: is_registered_def)
  then have r2: "g_dbus_register_interface e ?st3 dpath GATT_DESCRIPTOR_IFACE d = (False, ?st3)"
    for d
    using desc_refused by (auto simp: g_dbus_register_interface_def)
  have un: "g_dbus_unregister_interface ?st3 cpath GATT_CHR_IFACE
              = st\<lparr>register_characteristic_id := register_characteristic_id st + 2\<rparr>"
    using filter_not_registered [OF chr_accepted(2)]
    by (simp add: g_dbus_unregister_interface_def)
  show ?thesis
    unfolding register_characteristic_def
    using ne1 ne2 r1 r2 un copy
    by (simp add: Let_def cpath_def [symmetric] dpath_def [symmetric])
qed

lemma register_service_result:
  assumes "register_service_id st \<noteq> INT_MAX"
  shows "register_service e st uuid
     = (if register_ok e (service_path_fmt (register_service_id st)) GATT_SERVICE_IFACE
           \<and> \<not> is_registered st (service_path_fmt (register_service_id st)) GATT_SERVICE_IFACE
        then Inr (Some (service_path_fmt (register_service_id st)),
               st\<lparr>register_service_id := register_service_id st + 1,
                  interfaces := interfaces st @
                    [(service_path_fmt (register_service_id st), GATT_SERVICE_IFACE,
                      ServiceData uuid)]\<rparr>)
        else Inr (None, st\<lparr>register_service_id := register_service_id st + 1\<rparr>))"
  using assms
  by (simp add: register_service_def g_dbus_register_interface_def Let_def is_registered_def)

section \<open>Claims\<close>

text \<open>
  C1 asks that a WriteValue call carrying any byte array \<open>v\<close> be followed by a read
  that returns \<open>v\<close>. The code does not deliver this for the empty array: the value
  parses, the null pointer and the length 0 are assigned, and then the sink is handed
  the null pointer to print as a string, so the call never returns and no read follows.
\<close>

theorem chr_write_value_empty_payload_faults:
  "parse_value [DArray DBUS_TYPE_BYTE [], DArray DBUS_TYPE_DICT_ENTRY []] = (0, Some (None, 0))
   \<and> chr_write_assign all_ok body_sensor_location None 0
       = Inr (body_sensor_location\<lparr>chr_value := None, chr_vlen := 0\<rparr>)
   \<and> callback None 0 = Inl Undefined
   \<and> chr_write_value all_ok (Some 0) body_sensor_location
         [DArray DBUS_TYPE_BYTE [], DArray DBUS_TYPE_DICT_ENTRY []]
       = Inl Undefined"
  by (simp add: chr_write_value_def parse_value_def parse_options_def chr_write_0
        chr_write_assign_0 callback_null)

text \<open>
  C2: the setter of a characteristic's \<^verbatim>\<open>Value\<close> property takes the return code 0 of
  \<^verbatim>\<open>parse_value\<close>, which means success, for the error: whenever the payload parses, the
  set fails with InvalidArguments and the characteristic is left as it was, with no sink
  call and no signal. (When the payload does not parse, the setter goes on to write from
  its uninitialised locals.) The descriptor's setter tests the same code the right way
  round: it reports InvalidArguments when parsing fails, and when a byte array parses it
  stores it and reports success; this last part is stated for byte arrays that hold a
  zero byte, which the sink prints without leaving the block.
\<close>

theorem chr_set_value_inverted_check:
  "(fst (parse_value iter) = 0 \<longrightarrow>
      chr_set_value e chr iter
        = Inr (PendingError ''ERROR_INTERFACE.InvalidArguments''
                 ''Invalid arguments in method call'', chr, []))
   \<and> (fst (parse_value iter) \<noteq> 0 \<longrightarrow> chr_set_value e chr iter = Inl Undefined)
   \<and> (fst (parse_value iter) \<noteq> 0 \<longrightarrow>
        desc_set_value e desc iter
          = Inr (PendingError ''error.InvalidArguments''
                   ''Invalid arguments in method call'', desc, []))
   \<and> (length v \<le> DBUS_MAXIMUM_ARRAY_LENGTH \<and> malloc_ok e \<and> 0 \<in> set v \<longrightarrow>
        fst (parse_value (DArray DBUS_TYPE_BYTE (map DByte v) # rest)) = 0
        \<and> chr_set_value e chr (DArray DBUS_TYPE_BYTE (map DByte v) # rest)
          = Inr (PendingError ''ERROR_INTERFACE.InvalidArguments''
                   ''Invalid arguments in method call'', chr, [])
        \<and> desc_set_value e desc (DArray DBUS_TYPE_BYTE (map DByte v) # rest)
          = Inr (PendingSuccess,
                 desc\<lparr>desc_value := Some v, desc_vlen := int (length v)\<rparr>,
                 [Callback (Some v) (int (length v))]))"
proof -
  have a: "fst (parse_value iter) = 0 \<longrightarrow>
      chr_set_value e chr iter
        = Inr (PendingError ''ERROR_INTERFACE.InvalidArguments''
                 ''Invalid arguments in method call'', chr, [])" for iter
    by (simp add: chr_set_value_def split: prod.splits)
  have na: "dbus_message_iter_get_arg_type iter \<noteq> DBUS_TYPE_ARRAY"
    if "fst (parse_value iter) \<noteq> 0"
    using that by (simp add: parse_value_rc split: if_splits)
  have b: "fst (parse_value iter) \<noteq> 0 \<longrightarrow> chr_set_value e chr iter = Inl Undefined"
    using na by (auto simp: chr_set_value_def parse_value_not_array EINVAL_def)
  have c: "fst (parse_value iter) \<noteq> 0 \<longrightarrow>
        desc_set_value e desc iter
          = Inr (PendingError ''error.InvalidArguments''
                   ''Invalid arguments in method call'', desc, [])"
    by (simp add: desc_set_value_def split: prod.splits)
  have d: "desc_set_value e desc (DArray DBUS_TYPE_BYTE (map DByte v) # rest)
          = Inr (PendingSuccess,
                 desc\<lparr>desc_value := Some v, desc_vlen := int (length v)\<rparr>,
                 [Callback (Some v) (int (length v))])"
    if "length v \<le> DBUS_MAXIMUM_ARRAY_LENGTH" "malloc_ok e" "0 \<in> set v"
    using that by (rule desc_set_value_bytes)
  have p: "fst (parse_value (DArray DBUS_TYPE_BYTE (map DByte v) # rest)) = 0"
    by (simp add: parse_value_bytes)
  from a [of iter] a [of "DArray DBUS_TYPE_BYTE (map DByte v) # rest"] b c d p
  show ?thesis by blast
qed

theorem chr_set_value_inverted_check_witness:
  "fst (parse_value [DArray DBUS_TYPE_BYTE (map DByte [1, 0])]) = 0
   \<and> chr_set_value all_ok heart_rate_measurement [DArray DBUS_TYPE_BYTE (map DByte [1, 0])]
       = Inr (PendingError ''ERROR_INTERFACE.InvalidArguments''
                ''Invalid arguments in method call'', heart_rate_measurement, [])
   \<and> length [1, 0 :: byte] \<le> DBUS_MAXIMUM_ARRAY_LENGTH \<and> malloc_ok all_ok
   \<and> 0 \<in> set [1, 0 :: byte]
   \<and> desc_set_value all_ok client_chr_config [DArray DBUS_TYPE_BYTE (map DByte [1, 0])]
       = Inr (PendingSuccess,
              client_chr_config\<lparr>desc_value := Some [1, 0], desc_vlen := 2\<rparr>,
              [Callback (Some [1, 0]) 2])
   \<and> fst (parse_value [DString ''on'']) \<noteq> 0
   \<and> chr_set_value all_ok heart_rate_measurement [DString ''on''] = Inl Undefined
   \<and> desc_set_value all_ok client_chr_config [DString ''on'']
       = Inr (PendingError ''error.InvalidArguments''
                ''Invalid arguments in method call'', client_chr_config, [])"
  using chr_set_value_inverted_check [of "[DArray DBUS_TYPE_BYTE (map DByte [1, 0])]" all_ok
          heart_rate_measurement client_chr_config "[1, 0]" "[]"]
        chr_set_value_inverted_check [of "[DString ''on'']" all_ok
          heart_rate_measurement client_chr_config "[]" "[]"]
  by (simp add: DBUS_MAXIMUM_ARRAY_LENGTH_def all_ok_def parse_value_def EINVAL_def)




text \<open>
  C4: when the characteristic's interface has been registered and the registration of
  the descriptor's interface fails, \<^verbatim>\<open>register_characteristic\<close> unregisters the
  characteristic again and returns \<^verbatim>\<open>FALSE\<close>: the interfaces exposed afterwards are
  exactly those exposed before the call, and the characteristic's path is not among
  them. Only the counter has moved on, by two.
\<close>

theorem register_characteristic_rollback:
  fixes service_path :: string and st :: gatt_state
  defines "cpath \<equiv> service_path @ ''/characteristic'' @ printf_d (register_characteristic_id st)"
  defines "dpath \<equiv> cpath @ ''/descriptor'' @ printf_d (register_characteristic_id st + 1)"
  assumes counter: "register_characteristic_id st < INT_MAX - 1"
    and copy: "util_memdup e val (size_t_of_int vlen) = Inr p"
    and chr_accepted: "register_ok e cpath GATT_CHR_IFACE"
                      "\<not> is_registered st cpath GATT_CHR_IFACE"
    and desc_refused: "\<not> register_ok e dpath GATT_DESCRIPTOR_IFACE
                       \<or> is_registered st dpath GATT_DESCRIPTOR_IFACE"
  shows "register_characteristic e st uuid val vlen props (Some du) dprops service_path
           = Inr (False, st\<lparr>register_characteristic_id := register_characteristic_id st + 2\<rparr>)
         \<and> interfaces (st\<lparr>register_characteristic_id := register_characteristic_id st + 2\<rparr>)
             = interfaces st
         \<and> \<not> is_registered (st\<lparr>register_characteristic_id := register_characteristic_id st + 2\<rparr>)
               cpath GATT_CHR_IFACE"
proof -
  have cp: "cpath = characteristic_path_fmt service_path (register_characteristic_id st)"
    by (simp add: cpath_def characteristic_path_fmt_def)
  have dp: "dpath = descriptor_path_fmt
                      (characteristic_path_fmt service_path (register_characteristic_id st))
                      (register_characteristic_id st + 1)"
    by (simp add: dpath_def cp descriptor_path_fmt_def)
  have "register_characteristic e st uuid val vlen props (Some du) dprops service_path
           = Inr (False, st\<lparr>register_characteristic_id := register_characteristic_id st + 2\<rparr>)"
    using register_characteristic_desc_refused [OF counter copy, of service_path uuid props du dprops]
      chr_accepted desc_refused
    by (auto simp: cp dp)
  then show ?thesis
    using chr_accepted(2) by simp
qed

theorem register_characteristic_rollback_witness:
  "register_characteristic_id service_registered < INT_MAX - 1
   \<and> util_memdup refuses_descriptors (Some [0]) (size_t_of_int 1) = Inr (Some [0])
   \<and> register_ok refuses_descriptors ''/service1/characteristic1'' GATT_CHR_IFACE
   \<and> \<not> is_registered service_registered ''/service1/characteristic1'' GATT_CHR_IFACE
   \<and> \<not> register_ok refuses_descriptors ''/service1/characteristic1/descriptor2''
          GATT_DESCRIPTOR_IFACE
   \<and> register_characteristic refuses_descriptors service_registered HR_MSRMT_CHR_UUID
         (Some [0]) 1 hrs_hr_msrmt_props (Some CLIENT_CHR_CONFIG_DESCRIPTOR_UUID)
         ccc_desc_props ''/service1''
       = Inr (False, service_registered\<lparr>register_characteristic_id := 3\<rparr>)
   \<and> interfaces (service_registered\<lparr>register_characteristic_id := 3\<rparr>)
       = [(''/service1'', GATT_SERVICE_IFACE, ServiceData HRP_UUID)]"
proof -
  have a: "register_characteristic_id service_registered < INT_MAX - 1"
    by (simp add: service_registered_def INT_MAX_def)
  have b: "util_memdup refuses_descriptors (Some [0]) (size_t_of_int 1) = Inr (Some [0])"
    by (simp add: util_memdup_def util_malloc_def memcpy_def size_t_of_int_def
          refuses_descriptors_def)
  have d: "printf_d 1 = ''1''" "printf_d 2 = ''2''"
    by code_simp+
  have i: "register_characteristic_id service_registered = 1"
    by (simp add: service_registered_def)
  have c1: "register_ok refuses_descriptors
              (''/service1'' @ ''/characteristic'' @ printf_d (register_characteristic_id service_registered))
              GATT_CHR_IFACE"
    by (simp add: refuses_descriptors_def GATT_CHR_IFACE_def GATT_DESCRIPTOR_IFACE_def)
  have c2: "\<not> is_registered service_registered
              (''/service1'' @ ''/characteristic'' @ printf_d (register_characteristic_id service_registered))
              GATT_CHR_IFACE"
    by (simp add: is_registered_def service_registered_def d)
  have c3: "\<not> register_ok refuses_descriptors
              ((''/service1'' @ ''/characteristic'' @ printf_d (register_characteristic_id service_registered))
                 @ ''/descriptor'' @ printf_d (register_characteristic_id service_registered + 1))
              GATT_DESCRIPTOR_IFACE
            \<or> is_registered service_registered
              ((''/service1'' @ ''/characteristic'' @ printf_d (register_characteristic_id service_registered))
                 @ ''/descriptor'' @ printf_d (register_characteristic_id service_registered + 1))
              GATT_DESCRIPTOR_IFACE"
    by (simp add: refuses_descriptors_def)
  have c4: "\<not> register_ok refuses_descriptors ''/service1/characteristic1/descriptor2''
              GATT_DESCRIPTOR_IFACE"
    by (simp add: refuses_descriptors_def)
  show ?thesis
    using a b c1 c2 c4
      register_characteristic_rollback [OF a b c1 c2 c3, of HR_MSRMT_CHR_UUID hrs_hr_msrmt_props
        CLIENT_CHR_CONFIG_DESCRIPTOR_UUID ccc_desc_props]
    by (simp add: i d) (simp add: service_registered_def)
qed

text \<open>
  C5: StopNotify answers with the NotSupported error for every connection and every
  characteristic, and changes nothing.
\<close>
theorem chr_stop_notify_not_supported:
  "chr_stop_notify conn chr
     = (Some (ErrorMessage DBUS_ERROR_NOT_SUPPORTED ''Not Supported''), chr, [])"
  by (simp add: chr_stop_notify_def g_dbus_create_error_def)

text \<open>
  C6 asks that every successful write call the sink once and publish a property-changed
  signal for the attribute's path. The code does not deliver this on the property
  setter's path: \<^verbatim>\<open>desc_set_value\<close> calls \<^verbatim>\<open>desc_write\<close> with the null pointer for the
  connection, so a set of the client configuration descriptor to the bytes 1 0 stores
  the value, calls the sink once and reports success, but publishes nothing. The
  WriteValue method of the same descriptor, given the same bytes, passes its connection
  and publishes the signal.
\<close>

theorem desc_set_value_publishes_nothing:
  "desc_set_value all_ok client_chr_config [DArray DBUS_TYPE_BYTE [DByte 1, DByte 0]]
     = Inr (PendingSuccess,
            client_chr_config\<lparr>desc_value := Some [1, 0], desc_vlen := 2\<rparr>,
            [Callback (Some [1, 0]) 2])
   \<and> desc_write_value all_ok (Some 0) client_chr_config
         [DArray DBUS_TYPE_BYTE [DByte 1, DByte 0], DArray DBUS_TYPE_DICT_ENTRY []]
     = Inr (Some (MethodReturn []),
            client_chr_config\<lparr>desc_value := Some [1, 0], desc_vlen := 2\<rparr>,
            [Callback (Some [1, 0]) 2,
             PropertyChanged 0 ''/service1/characteristic1/descriptor2''
               GATT_DESCRIPTOR_IFACE ''Value''])"
  by (simp add: desc_set_value_def desc_write_value_def parse_value_def parse_options_def
        desc_write_def desc_write_assign_def callback_def g_dbus_emit_property_changed_def
        util_memdup_def util_malloc_def memcpy_def size_t_of_int_def
        dbus_message_new_method_return_def all_ok_def client_chr_config_def)




text \<open>
  C8, as stated, fails: characteristics and descriptors draw their numbers from one
  counter. In a fresh process \<^verbatim>\<open>create_services_one\<close> exposes characteristic1 with
  descriptor2, and the next characteristics are characteristic3 and characteristic4.
\<close>

theorem shared_counter_counterexample:
  "map fst (interfaces (projr (create_services_one all_ok initial_state)))
     = [''/service1'',
        ''/service1/characteristic1'',
        ''/service1/characteristic1/descriptor2'',
        ''/service1/characteristic3'',
        ''/service1/characteristic4'']"
  by code_simp

text \<open>
  C8, amended: paths have the layout \<^verbatim>\<open>/service<N>\<close>,
  \<^verbatim>\<open><service path>/characteristic<M>\<close> and \<^verbatim>\<open><characteristic path>/descriptor<K>\<close>.
  \<open>N\<close> is the counter of \<^verbatim>\<open>register_service\<close>, which every call advances by one.
  \<open>M\<close> and \<open>K\<close> come from the single counter of \<^verbatim>\<open>register_characteristic\<close>,
  which no call of either function decreases: a call takes \<open>M\<close> from it and advances it
  by one, and when a descriptor is asked for and the characteristic was accepted, the
  descriptor gets \<open>K = M + 1\<close> and the counter advances by two. So no number is used
  twice, and the next characteristic's number is \<open>M + 2\<close> after a call that numbered a
  descriptor and \<open>M + 1\<close> otherwise.
\<close>

theorem register_paths_shared_counter:
  fixes st :: gatt_state and service_path :: string
  defines "i \<equiv> register_characteristic_id st"
  defines "cpath \<equiv> service_path @ ''/characteristic'' @ printf_d i"
  defines "dpath \<equiv> cpath @ ''/descriptor'' @ printf_d (i + 1)"
  defines "spath \<equiv> ''/service'' @ printf_d (register_service_id st)"
  assumes counter: "i < INT_MAX - 1"
    and copy: "util_memdup e val (size_t_of_int vlen) = Inr p"
    and scounter: "register_service_id st < INT_MAX"
  shows "(\<exists>ok st'.
            register_characteristic e st uuid val vlen props du dprops service_path
              = Inr (ok, st')
          \<and> register_service_id st' = register_service_id st
          \<and> register_characteristic_id st'
              = (if du \<noteq> None \<and> register_ok e cpath GATT_CHR_IFACE
                    \<and> \<not> is_registered st cpath GATT_CHR_IFACE
                 then i + 2 else i + 1)
          \<and> (ok \<longrightarrow>
                map (\<lambda>(p, n, d). (p, n)) (interfaces st')
                  = map (\<lambda>(p, n, d). (p, n)) (interfaces st)
                    @ (cpath, GATT_CHR_IFACE)
                    # (case du of None \<Rightarrow> [] | Some u \<Rightarrow> [(dpath, GATT_DESCRIPTOR_IFACE)]))
          \<and> (\<not> ok \<longrightarrow> interfaces st' = interfaces st))
       \<and> (\<exists>r st'.
            register_service e st suuid = Inr (r, st')
          \<and> register_service_id st' = register_service_id st + 1
          \<and> register_characteristic_id st' = i
          \<and> (r = None \<and> interfaces st' = interfaces st
              \<or> r = Some spath
                \<and> interfaces st' = interfaces st @ [(spath, GATT_SERVICE_IFACE, ServiceData suuid)]))"
proof -
  have cp: "cpath = characteristic_path_fmt service_path (register_characteristic_id st)"
    by (simp add: cpath_def i_def characteristic_path_fmt_def)
  have dp: "dpath = descriptor_path_fmt
                      (characteristic_path_fmt service_path (register_characteristic_id st))
                      (register_characteristic_id st + 1)"
    by (simp add: dpath_def cp i_def descriptor_path_fmt_def)
  have sp: "spath = service_path_fmt (register_service_id st)"
    by (simp add: spath_def service_path_fmt_def)
  have ne: "register_characteristic_id st \<noteq> INT_MAX"
    and lt: "register_characteristic_id st < INT_MAX - 1"
    using counter by (simp_all add: i_def)
  let ?acc = "register_ok e cpath GATT_CHR_IFACE \<and> \<not> is_registered st cpath GATT_CHR_IFACE"
  let ?dacc = "register_ok e dpath GATT_DESCRIPTOR_IFACE
                 \<and> \<not> is_registered st dpath GATT_DESCRIPTOR_IFACE"
  have chr_part: "\<exists>ok st'.
            register_characteristic e st uuid val vlen props du dprops service_path
              = Inr (ok, st')
          \<and> register_service_id st' = register_service_id st
          \<and> register_characteristic_id st'
              = (if du \<noteq> None \<and> register_ok e cpath GATT_CHR_IFACE
                    \<and> \<not> is_registered st cpath GATT_CHR_IFACE
                 then i + 2 else i + 1)
          \<and> (ok \<longrightarrow>
                map (\<lambda>(p, n, d). (p, n)) (interfaces st')
                  = map (\<lambda>(p, n, d). (p, n)) (interfaces st)
                    @ (cpath, GATT_CHR_IFACE)
                    # (case du of None \<Rightarrow> [] | Some u \<Rightarrow> [(dpath, GATT_DESCRIPTOR_IFACE)]))
          \<and> (\<not> ok \<longrightarrow> interfaces st' = interfaces st)"
  proof (cases ?acc)
    case False
    then show ?thesis
      using register_characteristic_chr_refused [OF ne copy, of service_path uuid props du dprops]
      by (auto simp: cp i_def)
  next
    case acc: True
    show ?thesis
    proof (cases du)
      case None
      then show ?thesis
        using acc register_characteristic_no_descriptor [OF ne copy, of uuid props dprops service_path]
        by (auto simp: cp i_def)
    next
      case (Some u)
      show ?thesis
      proof (cases ?dacc)
        case True
        then show ?thesis
          using acc Some
            register_characteristic_with_descriptor [OF lt copy, of service_path uuid props u dprops]
          by (auto simp: cp dp i_def)
      next
        case False
        then show ?thesis
          using acc Some
            register_characteristic_desc_refused [OF lt copy, of service_path uuid props u dprops]
          by (auto simp: cp dp i_def)
      qed
    qed
  qed
  have svc_part: "\<exists>r st'.
            register_service e st suuid = Inr (r, st')
          \<and> register_service_id st' = register_service_id st + 1
          \<and> register_characteristic_id st' = i
          \<and> (r = None \<and> interfaces st' = interfaces st
              \<or> r = Some spath
                \<and> interfaces st' = interfaces st @ [(spath, GATT_SERVICE_IFACE, ServiceData suuid)])"
    using scounter by (auto simp: register_service_result sp i_def)
  from chr_part svc_part show ?thesis by blast
qed

theorem register_paths_shared_counter_witness:
  "register_characteristic_id initial_state < INT_MAX - 1
   \<and> util_memdup all_ok (Some [0]) (size_t_of_int 1) = Inr (Some [0])
   \<and> register_service_id initial_state < INT_MAX
   \<and> (\<exists>ok st'.
         register_characteristic all_ok initial_state HR_MSRMT_CHR_UUID (Some [0]) 1
             hrs_hr_msrmt_props (Some CLIENT_CHR_CONFIG_DESCRIPTOR_UUID) ccc_desc_props
             ''/service1''
           = Inr (ok, st')
       \<and> register_characteristic_id st' = 3
       \<and> (ok \<longrightarrow>
             map (\<lambda>(p, n, d). (p, n)) (interfaces st')
               = [(''/service1/characteristic1'', GATT_CHR_IFACE),
                  (''/service1/characteristic1/descriptor2'', GATT_DESCRIPTOR_IFACE)]))
   \<and> (\<exists>r st'.
         register_service all_ok initial_state HRP_UUID = Inr (r, st')
       \<and> register_service_id st' = 2
       \<and> (r = None \<and> interfaces st' = []
           \<or> r = Some ''/service1''
             \<and> interfaces st' = [(''/service1'', GATT_SERVICE_IFACE, ServiceData HRP_UUID)]))"
proof -
  have a: "register_characteristic_id initial_state < INT_MAX - 1"
    by (simp add: initial_state_def INT_MAX_def)
  have b: "util_memdup all_ok (Some [0]) (size_t_of_int 1) = Inr (Some [0])"
    by (simp add: util_memdup_def util_malloc_def memcpy_def size_t_of_int_def all_ok_def)
  have c: "register_service_id initial_state < INT_MAX"
    by (simp add: initial_state_def INT_MAX_def)
  have d: "printf_d 1 = ''1''" "printf_d 2 = ''2''"
    by code_simp+
  show ?thesis
    using a b c
      register_paths_shared_counter [OF a b c,
        of HR_MSRMT_CHR_UUID hrs_hr_msrmt_props "Some CLIENT_CHR_CONFIG_DESCRIPTOR_UUID"
           ccc_desc_props "''/service1''" HRP_UUID]
    by (auto simp: d initial_state_def all_ok_def is_registered_def)
qed

text \<open>
  C9 asks that a write of length zero succeed and that the read after it return the
  empty array. The code does not deliver this: with length 0 \<^verbatim>\<open>util_memdup\<close> returns
  the null pointer, which \<^verbatim>\<open>chr_write\<close> and \<^verbatim>\<open>desc_write\<close> store and then hand to the
  sink to print as a string. The write never returns, for either attribute, whatever the
  payload pointer, the connection and the allocator, and so neither do the WriteValue
  methods or the descriptor's property setter on an empty byte array.
\<close>

theorem zero_length_write_faults_in_sink:
  "chr_write e conn chr val 0 = Inl Undefined
   \<and> desc_write e conn desc val 0 = Inl Undefined
   \<and> chr_write_value e conn chr (DArray DBUS_TYPE_BYTE [] # rest) = Inl Undefined
   \<and> desc_write_value e conn desc (DArray DBUS_TYPE_BYTE [] # rest) = Inl Undefined
   \<and> desc_set_value e desc (DArray DBUS_TYPE_BYTE [] # rest) = Inl Undefined"
  by (simp add: chr_write_0 desc_write_0 chr_write_value_def desc_write_value_def
        desc_set_value_def parse_value_def parse_options_def)




end
